theory Spec2Isabelle
  imports Main "HOL-Library.Sublist"
begin

section \<open>Strings\<close>

text \<open>
  A JavaScript string is modelled as a \<^typ>\<open>string\<close>, a list of 8-bit characters:
  the bytes of its UTF-8 encoding. An ASCII character is one byte, every byte of another
  character is 128 or more, and the markers, separators and templates of the worker are
  ASCII. A string with an unpaired surrogate has no UTF-8 encoding and is outside the
  model.
\<close>

text \<open>
  \<^verbatim>\<open>String.prototype.toLowerCase\<close>. The letters \<open>A\<close> to \<open>Z\<close> (65 to 90) move to
  \<open>a\<close> to \<open>z\<close>. Two characters outside ASCII have a lower case with an ASCII letter in
  it: the Kelvin sign U+212A (bytes E2 84 AA) becomes \<open>k\<close>, and the capital I with dot
  above U+0130 (bytes C4 B0) becomes \<open>i\<close> followed by the combining dot U+0307 (bytes
  CC 87). Every other character outside ASCII is kept as it is: JavaScript maps it to
  characters outside ASCII again, which no marker of the worker contains.
\<close>

definition toLowerCase_char :: "char \<Rightarrow> char" where
  "toLowerCase_char c =
     (let n = (of_char c :: nat) in if 65 \<le> n \<and> n \<le> 90 then char_of (n + 32) else c)"

function toLowerCase :: "string \<Rightarrow> string" where
  "toLowerCase [] = []"
| "toLowerCase (c # cs) =
     (if prefix [CHR 0xE2, CHR 0x84, CHR 0xAA] (c # cs)
      then CHR ''k'' # toLowerCase (drop 2 cs)
      else if prefix [CHR 0xC4, CHR 0xB0] (c # cs)
      then CHR ''i'' # CHR 0xCC # CHR 0x87 # toLowerCase (drop 1 cs)
      else toLowerCase_char c # toLowerCase cs)"
  by pat_completeness auto
termination
  by (relation "measure length") auto

declare toLowerCase.simps(2) [simp del]

text \<open>\<^verbatim>\<open>s.includes(pat)\<close>: \<open>pat\<close> occurs in \<open>s\<close> at some position.\<close>

fun str_includes :: "string \<Rightarrow> string \<Rightarrow> bool" where
  "str_includes [] pat = (pat = [])"
| "str_includes (c # cs) pat = (prefix pat (c # cs) \<or> str_includes cs pat)"

text \<open>\<^verbatim>\<open>s.startsWith(p)\<close>.\<close>

definition startsWith :: "string \<Rightarrow> string \<Rightarrow> bool" where
  "startsWith s p = prefix p s"

text \<open>
  \<^verbatim>\<open>s.split(sep)\<close> for a string separator: the pieces between the occurrences of
  \<open>sep\<close>, found from the left and not overlapping. \<open>find_sep\<close> cuts \<open>s\<close> at the first
  occurrence. With the empty separator JavaScript cuts between all characters.
\<close>

fun find_sep :: "string \<Rightarrow> string \<Rightarrow> (string \<times> string) option" where
  "find_sep sep [] = (if sep = [] then Some ([], []) else None)"
| "find_sep sep (c # cs) =
     (if prefix sep (c # cs) then Some ([], drop (length sep) (c # cs))
      else map_option (\<lambda>(before, after). (c # before, after)) (find_sep sep cs))"

lemma find_sep_shorter:
  "find_sep sep s = Some (before, after) \<Longrightarrow> sep \<noteq> [] \<Longrightarrow> length after < length s"
proof (induction s arbitrary: before)
  case Nil
  then show ?case by simp
next
  case (Cons c cs)
  show ?case
  proof (cases "prefix sep (c # cs)")
    case True
    with Cons.prems show ?thesis by auto
  next
    case False
    with Cons.prems obtain b where "find_sep sep cs = Some (b, after)"
      by auto
    with Cons.IH Cons.prems(2) show ?thesis by fastforce
  qed
qed

function str_split :: "string \<Rightarrow> string \<Rightarrow> string list" where
  "str_split s sep =
     (if sep = [] then map (\<lambda>c. [c]) s
      else case find_sep sep s of
             None \<Rightarrow> [s]
           | Some (before, after) \<Rightarrow> before # str_split after sep)"
  by pat_completeness auto
termination
  by (relation "measure (\<lambda>(s, sep). length s)") (auto dest: find_sep_shorter)

declare str_split.simps [simp del]

section \<open>Request classification\<close>

text \<open>The marker table of \<^verbatim>\<open>isInAppBrowser\<close>, in the order of the source.\<close>

definition inAppBrowsers :: "string list" where
  "inAppBrowsers =
     [''instagram'', ''fban'', ''fbav'', ''twitter'', ''line/'', ''micromessenger'',
      ''kakao'', ''telegram'']"

definition isInAppBrowser :: "string \<Rightarrow> bool" where
  "isInAppBrowser userAgent =
     (let ua = toLowerCase userAgent
      in list_ex (\<lambda>browser. str_includes ua browser) inAppBrowsers)"

definition getPlatform :: "string \<Rightarrow> string" where
  "getPlatform userAgent =
     (let ua = toLowerCase userAgent in
      if str_includes ua ''iphone'' \<or> str_includes ua ''ipad'' then ''ios''
      else if str_includes ua ''android'' then ''android''
      else ''unknown'')"

section \<open>Percent-decoding and percent-encoding\<close>

text \<open>The exceptions that the calls of the worker can raise.\<close>

datatype exn = URIError | TypeError | RangeError

definition hexval :: "char \<Rightarrow> nat option" where
  "hexval c =
     (let n = (of_char c :: nat) in
      if 48 \<le> n \<and> n \<le> 57 then Some (n - 48)
      else if 65 \<le> n \<and> n \<le> 70 then Some (n - 55)
      else if 97 \<le> n \<and> n \<le> 102 then Some (n - 87)
      else None)"

text \<open>An escape \<open>%XX\<close> at the head of the string: its octet and the rest.\<close>

fun escape_at :: "string \<Rightarrow> (nat \<times> string) option" where
  "escape_at (p # h # l # rest) =
     (if p = CHR ''%'' then
        (case (hexval h, hexval l) of
           (Some a, Some b) \<Rightarrow> Some (16 * a + b, rest)
         | _ \<Rightarrow> None)
      else None)"
| "escape_at _ = None"

text \<open>The number of leading 1 bits of an octet (5 stands for five or more).\<close>

definition leading_ones :: "nat \<Rightarrow> nat" where
  "leading_ones b =
     (if b < 128 then 0 else if b < 192 then 1 else if b < 224 then 2
      else if b < 240 then 3 else if b < 248 then 4 else 5)"

text \<open>The next \<open>k\<close> escapes, which \<^verbatim>\<open>Decode\<close> reads after a leading octet.\<close>

fun read_escapes :: "nat \<Rightarrow> string \<Rightarrow> (nat list \<times> string) option" where
  "read_escapes 0 s = Some ([], s)"
| "read_escapes (Suc k) s =
     (case escape_at s of
        None \<Rightarrow> None
      | Some (b, rest) \<Rightarrow>
          (case read_escapes k rest of
             None \<Rightarrow> None
           | Some (bs, rest') \<Rightarrow> Some (b # bs, rest')))"

text \<open>
  The octets of one well-formed UTF-8 sequence of two to four octets (the Unicode
  standard's table of well-formed byte sequences: no overlong form, no surrogate, nothing
  above U+10FFFF).
\<close>

definition cont :: "nat \<Rightarrow> bool" where
  "cont b = (128 \<le> b \<and> b \<le> 191)"

fun valid_utf8 :: "nat list \<Rightarrow> bool" where
  "valid_utf8 [a, b] = (194 \<le> a \<and> a \<le> 223 \<and> cont b)"
| "valid_utf8 [a, b, c] =
     ((a = 224 \<and> 160 \<le> b \<and> b \<le> 191 \<and> cont c)
      \<or> (225 \<le> a \<and> a \<le> 236 \<and> cont b \<and> cont c)
      \<or> (a = 237 \<and> 128 \<le> b \<and> b \<le> 159 \<and> cont c)
      \<or> (238 \<le> a \<and> a \<le> 239 \<and> cont b \<and> cont c))"
| "valid_utf8 [a, b, c, d] =
     ((a = 240 \<and> 144 \<le> b \<and> b \<le> 191 \<and> cont c \<and> cont d)
      \<or> (241 \<le> a \<and> a \<le> 243 \<and> cont b \<and> cont c \<and> cont d)
      \<or> (a = 244 \<and> 128 \<le> b \<and> b \<le> 143 \<and> cont c \<and> cont d))"
| "valid_utf8 _ = False"

lemma escape_at_shorter: "escape_at s = Some (b, rest) \<Longrightarrow> length rest < length s"
  by (induction s rule: escape_at.induct) (auto split: if_splits option.splits)

lemma read_escapes_shorter: "read_escapes k s = Some (bs, rest) \<Longrightarrow> length rest \<le> length s"
proof (induction k arbitrary: s bs)
  case 0
  then show ?case by simp
next
  case (Suc k)
  from Suc.prems obtain b r bs' where e: "escape_at s = Some (b, r)"
    and r: "read_escapes k r = Some (bs', rest)"
    by (auto split: option.splits)
  from Suc.IH [OF r] escape_at_shorter [OF e] show ?case by simp
qed

text \<open>
  \<^verbatim>\<open>decodeURIComponent\<close> (ECMAScript \<^verbatim>\<open>Decode\<close> with no reserved set). A character
  other than \<open>%\<close> is copied. At \<open>%\<close> an escape must follow; an octet below 128 is that
  character, and an octet with \<open>n\<close> leading 1 bits opens a UTF-8 sequence: \<open>n\<close> is 2, 3 or
  4, the next \<open>n - 1\<close> items are escapes, and the octets are well-formed UTF-8. Everything
  else raises \<^verbatim>\<open>URIError\<close>.
\<close>

function decodeURIComponent :: "string \<Rightarrow> exn + string" where
  "decodeURIComponent [] = Inr []"
| "decodeURIComponent (c # cs) =
     (if c \<noteq> CHR ''%'' then map_sum id ((#) c) (decodeURIComponent cs)
      else case escape_at (c # cs) of
        None \<Rightarrow> Inl URIError
      | Some (B, rest) \<Rightarrow>
          (let n = leading_ones B in
           if n = 0 then map_sum id ((#) (char_of B)) (decodeURIComponent rest)
           else if n = 1 \<or> n > 4 then Inl URIError
           else case read_escapes (n - 1) rest of
             None \<Rightarrow> Inl URIError
           | Some (Octets, rest') \<Rightarrow>
               if valid_utf8 (B # Octets)
               then map_sum id ((@) (map char_of (B # Octets))) (decodeURIComponent rest')
               else Inl URIError))"
  by pat_completeness auto
termination
proof (relation "measure length", goal_cases)
  case 1
  show ?case by simp
next
  case (2 c cs)
  show ?case by simp
next
  case (3 c cs x2 B rest n)
  then have "escape_at (c # cs) = Some (B, rest)" by simp
  from escape_at_shorter [OF this] show ?case by simp
next
  case (4 c cs x2 B rest n x2a Octets rest')
  then have e: "escape_at (c # cs) = Some (B, rest)"
    and r: "read_escapes (leading_ones B - 1) rest = Some (Octets, rest')"
    by simp_all
  from escape_at_shorter [OF e] read_escapes_shorter [OF r] show ?case by simp
qed

declare decodeURIComponent.simps [simp del]

text \<open>
  \<^verbatim>\<open>encodeURIComponent\<close>, with which a caller writes a destination into the path:
  letters, digits and \<^verbatim>\<open>-_.!~*'()\<close> stay, every other octet of the UTF-8 encoding
  becomes \<open>%XX\<close> with upper-case hexadecimal digits.
\<close>

definition unreserved :: "char \<Rightarrow> bool" where
  "unreserved c =
     (let n = (of_char c :: nat) in
      (65 \<le> n \<and> n \<le> 90) \<or> (97 \<le> n \<and> n \<le> 122) \<or> (48 \<le> n \<and> n \<le> 57)
      \<or> c \<in> set [CHR ''-'', CHR ''_'', CHR ''.'', CHR ''!'', CHR ''~'', CHR ''*'', CHR 0x27,
                   CHR ''('', CHR '')''])"

definition hexdigit :: "nat \<Rightarrow> char" where
  "hexdigit n = ''0123456789ABCDEF'' ! n"

definition encode_char :: "char \<Rightarrow> string" where
  "encode_char c =
     (if unreserved c then [c]
      else [CHR ''%'', hexdigit ((of_char c :: nat) div 16), hexdigit ((of_char c :: nat) mod 16)])"

definition encodeURIComponent :: "string \<Rightarrow> string" where
  "encodeURIComponent s = concat (map encode_char s)"

text \<open>
  The strings that stand for a JavaScript string: well-formed UTF-8. (On a string with
  an unpaired surrogate \<^verbatim>\<open>encodeURIComponent\<close> raises; such a string has no
  representation here.)
\<close>

function utf8_wf :: "nat list \<Rightarrow> bool" where
  "utf8_wf [] = True"
| "utf8_wf (a # r) =
     (let n = leading_ones a in
      if n = 0 then utf8_wf r
      else if n = 1 \<or> n > 4 then False
      else n - 1 \<le> length r \<and> valid_utf8 (a # take (n - 1) r) \<and> utf8_wf (drop (n - 1) r))"
  by pat_completeness auto
termination
  by (relation "measure length") auto

declare utf8_wf.simps [simp del]

definition well_formed :: "string \<Rightarrow> bool" where
  "well_formed s = utf8_wf (map of_char s)"

section \<open>JSON string literals\<close>

text \<open>
  \<^verbatim>\<open>JSON.stringify\<close> on a string (\<^verbatim>\<open>QuoteJSONString\<close>): the double quote and the
  backslash get a backslash, the control characters below 32 their short escape or
  \<^verbatim>\<open>\u00XX\<close> with lower-case digits, every other character is copied. The characters
  \<^verbatim>\<open><\<close>, \<^verbatim>\<open>>\<close>, \<^verbatim>\<open>/\<close> and \<^verbatim>\<open>&\<close> are copied.
\<close>

definition hexdigit_lower :: "nat \<Rightarrow> char" where
  "hexdigit_lower n = ''0123456789abcdef'' ! n"

definition json_quote_char :: "char \<Rightarrow> string" where
  "json_quote_char c =
     (let n = (of_char c :: nat) in
      if n = 8 then [CHR 0x5C, CHR ''b'']
      else if n = 9 then [CHR 0x5C, CHR ''t'']
      else if n = 10 then [CHR 0x5C, CHR ''n'']
      else if n = 12 then [CHR 0x5C, CHR ''f'']
      else if n = 13 then [CHR 0x5C, CHR ''r'']
      else if n = 34 then [CHR 0x5C, CHR 0x22]
      else if n = 92 then [CHR 0x5C, CHR 0x5C]
      else if n < 32 then
        [CHR 0x5C, CHR ''u'', CHR ''0'', CHR ''0'', hexdigit_lower (n div 16),
         hexdigit_lower (n mod 16)]
      else [c])"

definition JSON_stringify :: "string \<Rightarrow> string" where
  "JSON_stringify s = [CHR 0x22] @ concat (map json_quote_char s) @ [CHR 0x22]"

section \<open>Requests and responses\<close>

text \<open>
  The parsed request URL (\<^verbatim>\<open>new URL(request.url)\<close>): the worker reads its
  \<^verbatim>\<open>pathname\<close> and its \<^verbatim>\<open>searchParams\<close>, the decoded name and value pairs of the
  query in their order.
\<close>

record URL =
  pathname :: string
  searchParams :: "(string \<times> string) list"

record request =
  req_url :: URL
  req_method :: string
  req_headers :: "(string \<times> string) list"
  req_body :: string

record response =
  status :: nat
  headers :: "(string \<times> string) list"
  body :: string

text \<open>\<^verbatim>\<open>searchParams.get(name)\<close>: the first value of that name, or \<^verbatim>\<open>null\<close>.\<close>

definition searchParams_get :: "(string \<times> string) list \<Rightarrow> string \<Rightarrow> string option" where
  "searchParams_get params name = map_of params name"

text \<open>
  \<^verbatim>\<open>headers.get(name)\<close>: names compare without case, several values of one name are
  joined with a comma and a space, and no such header is \<^verbatim>\<open>null\<close>.
\<close>

fun join_values :: "string list \<Rightarrow> string" where
  "join_values [] = []"
| "join_values [v] = v"
| "join_values (v # vs) = v @ '', '' @ join_values vs"

definition headers_get :: "(string \<times> string) list \<Rightarrow> string \<Rightarrow> string option" where
  "headers_get hs name =
     (case filter (\<lambda>(k, v). toLowerCase k = toLowerCase name) hs of
        [] \<Rightarrow> None
      | kvs \<Rightarrow> Some (join_values (map snd kvs)))"

text \<open>
  \<^verbatim>\<open>Response.redirect(url, status)\<close> of the Fetch standard. The URL parser of the
  platform is a parameter \<open>new_URL\<close>: \<open>new_URL s\<close> is \<^verbatim>\<open>new URL(s).href\<close>, the
  serialisation of the parsed URL, and \<open>None\<close> where the constructor raises
  \<^verbatim>\<open>TypeError\<close>. The \<^verbatim>\<open>Location\<close> header is that serialisation.
\<close>

definition Response_redirect ::
  "(string \<Rightarrow> string option) \<Rightarrow> string \<Rightarrow> nat \<Rightarrow> exn + response" where
  "Response_redirect new_URL url st =
     (case new_URL url of
        None \<Rightarrow> Inl TypeError
      | Some parsedURL \<Rightarrow>
          if st \<notin> set [301, 302, 303, 307, 308] then Inl RangeError
          else Inr \<lparr>status = st, headers = [(''Location'', parsedURL)], body = []\<rparr>)"

section \<open>The interstitial document\<close>

text \<open>
  The template of \<^verbatim>\<open>generateRedirectHTML\<close>, cut at its three holes and at the parts
  of the document. Line ends are line feeds; the quote, the backslash and the bytes of
  the bullet characters are written by their codes.
\<close>

definition html_doctype :: string where
  \<open>html_doctype =
     ''<!DOCTYPE html>\<newline>'' @
     ''<html lang="en">\<newline>'' @
     ''<head>\<newline>'' @
     ''    <meta charset="UTF-8">\<newline>'' @
     ''    <meta name="viewport" content="width=device-width, initial-scale=1.0">\<newline>'' @
     ''    <title>Opening in browser...</title>\<newline>''\<close>

definition html_style :: string where
  \<open>html_style =
     ''    <style>\<newline>'' @
     ''        * {\<newline>'' @
     ''            margin: 0;\<newline>'' @
     ''            padding: 0;\<newline>'' @
     ''            box-sizing: border-box;\<newline>'' @
     ''        }\<newline>'' @
     ''        \<newline>'' @
     ''        body {\<newline>'' @
     ''            font-family: -apple-system, BlinkMacSystemFont, '' @ [CHR 0x27] @ ''Segoe UI'' @ [CHR 0x27] @ '', Roboto, sans-serif;\<newline>'' @
     ''            background: linear-gradient(135deg, #667eea 0%, #764ba2 100%);\<newline>'' @
     ''            min-height: 100vh;\<newline>'' @
     ''            display: flex;\<newline>'' @
     ''            flex-direction: column;\<newline>'' @
     ''            justify-content: center;\<newline>'' @
     ''            align-items: center;\<newline>'' @
     ''            padding: 20px;\<newline>'' @
     ''            color: white;\<newline>'' @
     ''        }\<newline>'' @
     ''        \<newline>'' @
     ''        .container {\<newline>'' @
     ''            max-width: 500px;\<newline>'' @
     ''            text-align: center;\<newline>'' @
     ''        }\<newline>'' @
     ''        \<newline>'' @
     ''        .loader {\<newline>'' @
     ''            width: 50px;\<newline>'' @
     ''            height: 50px;\<newline>'' @
     ''            border: 5px solid rgba(255, 255, 255, 0.3);\<newline>'' @
     ''            border-top-color: white;\<newline>'' @
     ''            border-radius: 50%;\<newline>'' @
     ''            animation: spin 1s linear infinite;\<newline>'' @
     ''            margin: 0 auto 30px;\<newline>'' @
     ''        }\<newline>'' @
     ''        \<newline>'' @
     ''        @keyframes spin {\<newline>'' @
     ''            to { transform: rotate(360deg); }\<newline>'' @
     ''        }\<newline>'' @
     ''        \<newline>'' @
     ''        h1 {\<newline>'' @
     ''            font-size: 24px;\<newline>'' @
     ''            margin-bottom: 15px;\<newline>'' @
     ''            font-weight: 600;\<newline>'' @
     ''        }\<newline>'' @
     ''        \<newline>'' @
     ''        p {\<newline>'' @
     ''            font-size: 16px;\<newline>'' @
     ''            line-height: 1.6;\<newline>'' @
     ''            opacity: 0.9;\<newline>'' @
     ''            margin-bottom: 20px;\<newline>'' @
     ''        }\<newline>'' @
     ''        \<newline>'' @
     ''        .manual-link {\<newline>'' @
     ''            display: inline-block;\<newline>'' @
     ''            background: white;\<newline>'' @
     ''            color: #667eea;\<newline>'' @
     ''            padding: 12px 24px;\<newline>'' @
     ''            border-radius: 8px;\<newline>'' @
     ''            text-decoration: none;\<newline>'' @
     ''            font-weight: 600;\<newline>'' @
     ''            margin-top: 20px;\<newline>'' @
     ''            transition: transform 0.2s;\<newline>'' @
     ''        }\<newline>'' @
     ''        \<newline>'' @
     ''        .manual-link:hover {\<newline>'' @
     ''            transform: scale(1.05);\<newline>'' @
     ''        }\<newline>'' @
     ''        \<newline>'' @
     ''        .instructions {\<newline>'' @
     ''            margin-top: 30px;\<newline>'' @
     ''            padding: 20px;\<newline>'' @
     ''            background: rgba(255, 255, 255, 0.1);\<newline>'' @
     ''            border-radius: 12px;\<newline>'' @
     ''            font-size: 14px;\<newline>'' @
     ''            line-height: 1.8;\<newline>'' @
     ''        }\<newline>'' @
     ''    </style>\<newline>'' @
     ''</head>\<newline>''\<close>

definition html_body :: string where
  \<open>html_body =
     ''<body>\<newline>'' @
     ''    <div class="container">\<newline>'' @
     ''        <div class="loader"></div>\<newline>'' @
     ''        <h1>Opening in your browser...</h1>\<newline>'' @
     ''        <p>You'' @ [CHR 0x27] @ ''re being redirected to your default browser for a better experience.</p>\<newline>'' @
     ''        \<newline>'' @
     ''        <div class="instructions">\<newline>'' @
     ''            <strong>If the redirect doesn'' @ [CHR 0x27] @ ''t work:</strong><br>\<newline>'' @
     ''            Tap the <strong>"'' @ [CHR 0xE2, CHR 0x80, CHR 0xA2, CHR 0xE2, CHR 0x80, CHR 0xA2, CHR 0xE2, CHR 0x80, CHR 0xA2] @ ''"</strong> menu at the top and select<br>\<newline>'' @
     ''            <strong>"Open in Browser"</strong> or <strong>"Open in Safari/Chrome"</strong>\<newline>'' @
     ''        </div>\<newline>'' @
     ''        \<newline>''\<close>

definition html_script_attemptRedirect :: string where
  \<open>html_script_attemptRedirect =
     ''        // Function to attempt redirect\<newline>'' @
     ''        function attemptRedirect() {\<newline>'' @
     ''            if (platform === '' @ [CHR 0x27] @ ''android'' @ [CHR 0x27] @ '') {\<newline>'' @
     ''                // Android: Use intent URL to force external browser\<newline>'' @
     ''                const intentUrl = '' @ [CHR 0x27] @ ''intent://'' @ [CHR 0x27] @ '' + destinationUrl.replace(/https?:'' @ [CHR 0x5C] @ ''/'' @ [CHR 0x5C] @ ''//, '' @ [CHR 0x27, CHR 0x27] @ '') + '' @ [CHR 0x27] @ ''#Intent;end'' @ [CHR 0x27] @ '';\<newline>'' @
     ''                window.location.href = intentUrl;\<newline>'' @
     ''                \<newline>'' @
     ''                // Fallback after a delay\<newline>'' @
     ''                setTimeout(() => {\<newline>'' @
     ''                    window.location.href = destinationUrl;\<newline>'' @
     ''                }, 500);\<newline>'' @
     ''            } else if (platform === '' @ [CHR 0x27] @ ''ios'' @ [CHR 0x27] @ '') {\<newline>'' @
     ''                // iOS: Try multiple methods\<newline>'' @
     ''                \<newline>'' @
     ''                // Method 1: Try googlechrome:// or firefox:// schemes\<newline>'' @
     ''                const isChrome = navigator.userAgent.includes('' @ [CHR 0x27] @ ''CriOS'' @ [CHR 0x27] @ '');\<newline>'' @
     ''                const isFirefox = navigator.userAgent.includes('' @ [CHR 0x27] @ ''FxiOS'' @ [CHR 0x27] @ '');\<newline>'' @
     ''                \<newline>'' @
     ''                if (isChrome) {\<newline>'' @
     ''                    const chromeUrl = '' @ [CHR 0x27] @ ''googlechrome://'' @ [CHR 0x27] @ '' + destinationUrl.replace(/https?:'' @ [CHR 0x5C] @ ''/'' @ [CHR 0x5C] @ ''//, '' @ [CHR 0x27, CHR 0x27] @ '');\<newline>'' @
     ''                    window.location.href = chromeUrl;\<newline>'' @
     ''                    setTimeout(() => {\<newline>'' @
     ''                        window.location.href = destinationUrl;\<newline>'' @
     ''                    }, 500);\<newline>'' @
     ''                } else if (isFirefox) {\<newline>'' @
     ''                    const firefoxUrl = '' @ [CHR 0x27] @ ''firefox://'' @ [CHR 0x27] @ '' + destinationUrl.replace(/https?:'' @ [CHR 0x5C] @ ''/'' @ [CHR 0x5C] @ ''//, '' @ [CHR 0x27, CHR 0x27] @ '');\<newline>'' @
     ''                    window.location.href = firefoxUrl;\<newline>'' @
     ''                    setTimeout(() => {\<newline>'' @
     ''                        window.location.href = destinationUrl;\<newline>'' @
     ''                    }, 500);\<newline>'' @
     ''                } else {\<newline>'' @
     ''                    // Default: Try x-safari-https scheme\<newline>'' @
     ''                    const safariUrl = '' @ [CHR 0x27] @ ''x-safari-https://'' @ [CHR 0x27] @ '' + destinationUrl.replace(/https?:'' @ [CHR 0x5C] @ ''/'' @ [CHR 0x5C] @ ''//, '' @ [CHR 0x27, CHR 0x27] @ '');\<newline>'' @
     ''                    window.location.href = safariUrl;\<newline>'' @
     ''                    setTimeout(() => {\<newline>'' @
     ''                        window.location.href = destinationUrl;\<newline>'' @
     ''                    }, 500);\<newline>'' @
     ''                }\<newline>'' @
     ''            } else {\<newline>'' @
     ''                // Unknown platform or desktop - just redirect\<newline>'' @
     ''                window.location.href = destinationUrl;\<newline>'' @
     ''            }\<newline>'' @
     ''        }\<newline>'' @
     ''        \<newline>''\<close>

definition html_script_run :: string where
  \<open>html_script_run =
     ''        // Attempt redirect on load\<newline>'' @
     ''        window.addEventListener('' @ [CHR 0x27] @ ''load'' @ [CHR 0x27] @ '', () => {\<newline>'' @
     ''            setTimeout(attemptRedirect, 1000);\<newline>'' @
     ''        });\<newline>'' @
     ''        \<newline>'' @
     ''        // Also try immediately (belt and suspenders approach)\<newline>'' @
     ''        attemptRedirect();\<newline>'' @
     ''    ''\<close>

text \<open>Line 208: the manual link, with the destination written into the attribute as it is.\<close>

definition manual_link :: "string \<Rightarrow> string" where
  \<open>manual_link destinationUrl =
     ''<a href="'' @ destinationUrl @ ''" class="manual-link">Continue Manually</a>''\<close>

text \<open>
  Lines 211 to 266: the script element. Its two constants are the JSON literals of the
  destination and of the platform.
\<close>

definition html_script :: "string \<Rightarrow> string \<Rightarrow> string" where
  \<open>html_script destinationUrl platform =
     ''<script>\<newline>'' @
     ''        const destinationUrl = '' @ JSON_stringify destinationUrl @ '';\<newline>'' @
     ''        const platform = '' @ JSON_stringify platform @ '';\<newline>'' @
     ''        \<newline>'' @
     html_script_attemptRedirect @ html_script_run @
     ''</script>''\<close>

definition generateRedirectHTML :: "string \<Rightarrow> string \<Rightarrow> string" where
  \<open>generateRedirectHTML destinationUrl platform =
     html_doctype @ html_style @ html_body @
     ''        '' @ manual_link destinationUrl @ ''\<newline>'' @
     ''    </div>\<newline>'' @
     ''\<newline>'' @
     ''    '' @ html_script destinationUrl platform @ ''\<newline>'' @
     ''</body>\<newline>'' @
     ''</html>''\<close>

section \<open>The redirect handler\<close>

text \<open>
  Lines 61 to 70 of \<^verbatim>\<open>handleRedirect\<close>: the destination from the path, else from the
  query. \<open>None\<close> is \<^verbatim>\<open>null\<close>; \<^verbatim>\<open>decodeURIComponent\<close> may raise.
\<close>

definition destination_of :: "URL \<Rightarrow> exn + string option" where
  "destination_of url =
     (let pathParts = str_split (pathname url) ''/go/'' in
      if length pathParts > 1 \<and> pathParts ! 1 \<noteq> []
      then (case decodeURIComponent (pathParts ! 1) of
              Inl e \<Rightarrow> Inl e
            | Inr destinationUrl \<Rightarrow> Inr (Some destinationUrl))
      else Inr (searchParams_get (searchParams url) ''url''))"

definition missing_destination :: response where
  "missing_destination =
     \<lparr>status = 400, headers = [(''Content-Type'', ''text/plain'')],
      body = ''Missing destination URL. Use /go/https://example.com or /go/?url=https://example.com''\<rparr>"

definition invalid_destination :: response where
  "invalid_destination =
     \<lparr>status = 400, headers = [(''Content-Type'', ''text/plain'')],
      body = ''Invalid destination URL''\<rparr>"

text \<open>
  \<^verbatim>\<open>handleRedirect(request, url, userAgent)\<close>. The result is the response, or the
  exception that leaves the handler uncaught. \<^verbatim>\<open>!destinationUrl\<close> holds for
  \<^verbatim>\<open>null\<close> and for the empty string.
\<close>

definition handleRedirect ::
  "(string \<Rightarrow> string option) \<Rightarrow> request \<Rightarrow> URL \<Rightarrow> string \<Rightarrow> exn + response" where
  "handleRedirect new_URL request url userAgent =
     (case destination_of url of
        Inl e \<Rightarrow> Inl e
      | Inr None \<Rightarrow> Inr missing_destination
      | Inr (Some destinationUrl) \<Rightarrow>
          if destinationUrl = [] then Inr missing_destination
          else
            (case new_URL destinationUrl of
               None \<Rightarrow> Inr invalid_destination
             | Some _ \<Rightarrow>
                 if \<not> isInAppBrowser userAgent
                 then Response_redirect new_URL destinationUrl 302
                 else
                   (let platform = getPlatform userAgent in
                    Inr \<lparr>status = 200,
                         headers = [(''Content-Type'', ''text/html;charset=UTF-8''),
                                    (''Cache-Control'', ''no-cache, no-store, must-revalidate'')],
                         body = generateRedirectHTML destinationUrl platform\<rparr>)))"

text \<open>
  The entry point \<^verbatim>\<open>fetch(request, env, ctx)\<close>. \<open>ASSETS_fetch\<close> is the static
  site \<^verbatim>\<open>env.ASSETS.fetch\<close>. A missing \<^verbatim>\<open>user-agent\<close> header and an empty one
  both give the empty string.
\<close>

definition fetch ::
  "(string \<Rightarrow> string option) \<Rightarrow> (request \<Rightarrow> exn + response) \<Rightarrow> request \<Rightarrow> exn + response"
  where
  "fetch new_URL ASSETS_fetch request =
     (let url = req_url request;
          userAgent = (case headers_get (req_headers request) ''user-agent'' of
                         None \<Rightarrow> []
                       | Some v \<Rightarrow> v)
      in if startsWith (pathname url) ''/go/''
         then handleRedirect new_URL request url userAgent
         else ASSETS_fetch request)"

section \<open>The script of the interstitial document\<close>

text \<open>
  What the script does in the client, as the list of its effects in program order:
  an assignment to \<^verbatim>\<open>window.location.href\<close>, a \<^verbatim>\<open>setTimeout\<close> with the effects
  of its callback and its delay in milliseconds, and a listener for the \<^verbatim>\<open>load\<close>
  event.
\<close>

datatype action = Navigate string | SetTimeout "action list" nat | OnLoad "action list"

text \<open>
  \<^verbatim>\<open>destinationUrl.replace(/https?:\/\//, '')\<close>: the pattern has no anchor and no
  global flag, so the leftmost occurrence of \<open>http://\<close> or \<open>https://\<close> is removed,
  wherever it stands.
\<close>

fun replace_scheme :: "string \<Rightarrow> string" where
  "replace_scheme [] = []"
| "replace_scheme (c # cs) =
     (if prefix ''https://'' (c # cs) then drop 8 (c # cs)
      else if prefix ''http://'' (c # cs) then drop 7 (c # cs)
      else c # replace_scheme cs)"

definition attemptRedirect :: "string \<Rightarrow> string \<Rightarrow> string \<Rightarrow> action list" where
  "attemptRedirect destinationUrl platform navigator_userAgent =
     (if platform = ''android'' then
        (let intentUrl = ''intent://'' @ replace_scheme destinationUrl @ ''#Intent;end''
         in [Navigate intentUrl, SetTimeout [Navigate destinationUrl] 500])
      else if platform = ''ios'' then
        (let isChrome = str_includes navigator_userAgent ''CriOS'';
             isFirefox = str_includes navigator_userAgent ''FxiOS''
         in if isChrome then
              (let chromeUrl = ''googlechrome://'' @ replace_scheme destinationUrl
               in [Navigate chromeUrl, SetTimeout [Navigate destinationUrl] 500])
            else if isFirefox then
              (let firefoxUrl = ''firefox://'' @ replace_scheme destinationUrl
               in [Navigate firefoxUrl, SetTimeout [Navigate destinationUrl] 500])
            else
              (let safariUrl = ''x-safari-https://'' @ replace_scheme destinationUrl
               in [Navigate safariUrl, SetTimeout [Navigate destinationUrl] 500]))
      else [Navigate destinationUrl])"

text \<open>
  The whole script, with its two constants holding \<open>destinationUrl\<close> and \<open>platform\<close>:
  the listener is registered, then the first attempt runs.
\<close>

definition script :: "string \<Rightarrow> string \<Rightarrow> string \<Rightarrow> action list" where
  "script destinationUrl platform navigator_userAgent =
     OnLoad [SetTimeout (attemptRedirect destinationUrl platform navigator_userAgent) 1000]
     # attemptRedirect destinationUrl platform navigator_userAgent"

section \<open>Reading the document back\<close>

text \<open>
  The value an HTML parser reads for the \<^verbatim>\<open>href\<close> attribute of an anchor element:
  the text after the opening \<^verbatim>\<open><a href="\<close> up to the next double quote.
\<close>

definition manual_link_href :: "string \<Rightarrow> string option" where
  \<open>manual_link_href doc =
     (case find_sep ''<a href="'' doc of
        None \<Rightarrow> None
      | Some (_, rest) \<Rightarrow>
          (case find_sep ''"'' rest of
             None \<Rightarrow> None
           | Some (v, _) \<Rightarrow> Some v))\<close>

text \<open>
  The text of a script element as an HTML parser cuts it: from \<^verbatim>\<open><script>\<close> to the
  first \<^verbatim>\<open></script\<close>.
\<close>

definition script_element :: "string \<Rightarrow> string option" where
  \<open>script_element doc =
     (case find_sep ''<script>'' doc of
        None \<Rightarrow> None
      | Some (_, rest) \<Rightarrow>
          (case find_sep ''</script'' rest of
             None \<Rightarrow> None
           | Some (v, _) \<Rightarrow> Some v))\<close>

section \<open>Examples of parsed URLs\<close>

text \<open>
  The serialisations \<^verbatim>\<open>new URL(s).href\<close> of the URL standard for the strings used in
  the examples below: the scheme and the host of a special URL are lower-cased and its
  empty path is \<^verbatim>\<open>/\<close>. A string outside the table, such as \<^verbatim>\<open>not-a-url\<close>, which
  has no scheme, is refused.
\<close>

definition new_URL_examples :: "string \<Rightarrow> string option" where
  \<open>new_URL_examples =
     map_of
       [(''https://example.com'', ''https://example.com/''),
        (''HTTPS://EXAMPLE.COM'', ''https://example.com/''),
        (''https://example.com/path?a=1'', ''https://example.com/path?a=1''),
        (''https://example.com/?q="</script>'', ''https://example.com/?q=%22%3C/script%3E''),
        (''ftp://example.com/'', ''ftp://example.com/'')]\<close>

section \<open>The scheme prefix of a destination\<close>

text \<open>
  The destination with its scheme prefix stripped, as the description of the intent URL
  words it: the text after the first \<^verbatim>\<open>://\<close>. A string without \<^verbatim>\<open>://\<close> has no such
  prefix and is left as it is.
\<close>

definition scheme_prefix_stripped :: "string \<Rightarrow> string" where
  "scheme_prefix_stripped d =
     (case find_sep ''://'' d of
        None \<Rightarrow> d
      | Some (_, rest) \<Rightarrow> rest)"

section \<open>Facts about the string functions\<close>

lemma str_includes_sublist: "str_includes s pat \<longleftrightarrow> sublist pat s"
  by (induction s) (auto simp: sublist_Cons_right)

lemma find_sep_None: "\<not> sublist sep s \<Longrightarrow> find_sep sep s = None"
  by (induction s) (auto simp: sublist_Cons_right)

lemma find_sep_at_head: "sep \<noteq> [] \<Longrightarrow> find_sep sep (sep @ r) = Some ([], r)"
  by (cases sep) simp_all

lemma str_split_prefix:
  assumes "sep \<noteq> []" and "\<not> sublist sep r"
  shows "str_split (sep @ r) sep = [[], r]"
proof -
  have "str_split (sep @ r) sep = [] # str_split r sep"
    using assms(1) by (subst str_split.simps) (simp add: find_sep_at_head)
  also have "str_split r sep = [r]"
    using assms by (subst str_split.simps) (simp add: find_sep_None)
  finally show ?thesis .
qed

lemma decodeURIComponent_nonempty:
  assumes "decodeURIComponent s = Inr d" and "s \<noteq> []"
  shows "d \<noteq> []"
proof (cases s)
  case Nil
  with assms(2) show ?thesis by simp
next
  case (Cons c cs)
  with assms(1) show ?thesis
    by (cases "decodeURIComponent cs")
      (auto simp: decodeURIComponent.simps(2) [of c cs] Let_def map_sum_def
            split: if_splits option.splits sum.splits prod.splits)
qed

section \<open>Facts about the handler\<close>

lemma destination_of_path:
  assumes "pathname url = ''/go/'' @ r" and "\<not> sublist ''/go/'' r"
  shows "destination_of url =
           (if r \<noteq> []
            then (case decodeURIComponent r of Inl e \<Rightarrow> Inl e | Inr d \<Rightarrow> Inr (Some d))
            else Inr (searchParams_get (searchParams url) ''url''))"
proof -
  have "str_split (pathname url) ''/go/'' = [[], r]"
    using assms str_split_prefix [of "''/go/''" r] by simp
  then show ?thesis
    by (simp add: destination_of_def)
qed

lemma handleRedirect_valid:
  assumes "destination_of url = Inr (Some d)" and "d \<noteq> []" and "new_URL d = Some href"
  shows "handleRedirect new_URL request url ua =
           (if \<not> isInAppBrowser ua
            then Inr \<lparr>status = 302, headers = [(''Location'', href)], body = []\<rparr>
            else Inr \<lparr>status = 200,
                      headers = [(''Content-Type'', ''text/html;charset=UTF-8''),
                                 (''Cache-Control'', ''no-cache, no-store, must-revalidate'')],
                      body = generateRedirectHTML d (getPlatform ua)\<rparr>)"
  using assms by (simp add: handleRedirect_def Response_redirect_def)

lemma handleRedirect_missing_iff:
  assumes "destination_of url = Inr v"
  shows "handleRedirect new_URL request url ua = Inr missing_destination
           \<longleftrightarrow> v = None \<or> v = Some []"
proof (cases v)
  case None
  with assms show ?thesis by (simp add: handleRedirect_def)
next
  case (Some d)
  show ?thesis
  proof (cases "d = []")
    case True
    with Some assms show ?thesis by (simp add: handleRedirect_def)
  next
    case False
    show ?thesis
    proof (cases "new_URL d")
      case None
      with False Some assms show ?thesis
        by (simp add: handleRedirect_def missing_destination_def invalid_destination_def)
    next
      case (Some href)
      with False \<open>v = Some d\<close> assms show ?thesis
        by (simp add: handleRedirect_valid [of url d new_URL href] missing_destination_def)
    qed
  qed
qed

lemma handleRedirect_request:
  "handleRedirect new_URL r1 url ua = handleRedirect new_URL r2 url ua"
  by (simp add: handleRedirect_def)

lemma example_path: "\<not> sublist ''/go/'' ''https%3A%2F%2Fexample.com%2Fpath%3Fa%3D1''"
  by code_simp

lemma example_decode:
  "decodeURIComponent ''https%3A%2F%2Fexample.com%2Fpath%3Fa%3D1'' = Inr ''https://example.com/path?a=1''"
  by code_simp

lemma example_destination:
  "destination_of \<lparr>pathname = ''/go/https%3A%2F%2Fexample.com%2Fpath%3Fa%3D1'', searchParams = []\<rparr>
     = Inr (Some ''https://example.com/path?a=1'')"
  by (subst destination_of_path [where r = "''https%3A%2F%2Fexample.com%2Fpath%3Fa%3D1''"])
    (simp_all add: example_path example_decode)

lemma example_not_in_app: "\<not> isInAppBrowser ''curl/8.5.0''"
  by code_simp

lemma example_in_app: "isInAppBrowser ''Mozilla/5.0 (Linux; Android 13) Instagram 300.0''"
  by code_simp

lemma example_platform: "getPlatform ''Mozilla/5.0 (Linux; Android 13) Instagram 300.0'' = ''android''"
  by code_simp

lemma handleRedirect_client_error_iff:
  assumes "destination_of url = Inr v"
  shows "\<exists>resp. handleRedirect new_URL request url ua = Inr resp
           \<and> (status resp = 400 \<longleftrightarrow>
                  v = None \<or> v = Some [] \<or> (\<exists>d. v = Some d \<and> new_URL d = None))"
proof (cases v)
  case None
  with assms show ?thesis
    by (simp add: handleRedirect_def missing_destination_def)
next
  case (Some d)
  show ?thesis
  proof (cases "d = []")
    case True
    with Some assms show ?thesis
      by (simp add: handleRedirect_def missing_destination_def)
  next
    case False
    show ?thesis
    proof (cases "new_URL d")
      case None
      with False Some assms show ?thesis
        by (simp add: handleRedirect_def invalid_destination_def)
    next
      case (Some href)
      with False \<open>v = Some d\<close> assms show ?thesis
        by (simp add: handleRedirect_valid [of url d new_URL href])
    qed
  qed
qed

lemma fetch_without_user_agent:
  assumes "headers_get (req_headers r) ''user-agent'' = None"
    and "startsWith (pathname (req_url r)) ''/go/''"
  shows "fetch new_URL ASSETS_fetch r = handleRedirect new_URL r (req_url r) []"
  using assms by (simp add: fetch_def Let_def)

section \<open>Facts about the document and its script\<close>

lemma script_unknown:
  "script d ''unknown'' nav = [OnLoad [SetTimeout [Navigate d] 1000], Navigate d]"
  by (simp add: script_def attemptRedirect_def)

lemma script_android:
  "script d ''android'' nav =
     [OnLoad [SetTimeout [Navigate (''intent://'' @ replace_scheme d @ ''#Intent;end''),
                          SetTimeout [Navigate d] 500] 1000],
      Navigate (''intent://'' @ replace_scheme d @ ''#Intent;end''),
      SetTimeout [Navigate d] 500]"
  by (simp add: script_def attemptRedirect_def)


lemma find_sep_quote:
  \<open>\<exists>r. find_sep ''"'' (d @ CHR 0x22 # rest) = Some (takeWhile (\<lambda>c. c \<noteq> CHR 0x22) d, r)\<close>
  by (induction d) auto

text \<open>
  The \<open>href\<close> read back from the manual link is the destination up to its first double
  quote: the whole destination exactly when it has none.
\<close>

lemma manual_link_href_raw:
  \<open>manual_link_href (manual_link d) = Some (takeWhile (\<lambda>c. c \<noteq> CHR 0x22) d)\<close>
proof -
  let ?rest = \<open>'' class="manual-link">Continue Manually</a>''\<close>
  have m: \<open>manual_link d = ''<a href="'' @ (d @ CHR 0x22 # ?rest)\<close>
    by (simp add: manual_link_def)
  have 1: \<open>find_sep ''<a href="'' (manual_link d) = Some ([], d @ CHR 0x22 # ?rest)\<close>
    unfolding m by (rule find_sep_at_head) simp
  obtain r where 2: \<open>find_sep ''"'' (d @ CHR 0x22 # ?rest)
      = Some (takeWhile (\<lambda>c. c \<noteq> CHR 0x22) d, r)\<close>
    using find_sep_quote by blast
  show ?thesis
    by (simp only: manual_link_href_def 1 2 option.case prod.case)
qed

lemma manual_link_href_safe:
  \<open>CHR 0x22 \<notin> set d \<Longrightarrow> manual_link_href (manual_link d) = Some d\<close>
  by (auto simp: manual_link_href_raw)

lemma example_unsafe_request:
  \<open>handleRedirect new_URL_examples request
     \<lparr>pathname = ''/go/https%3A%2F%2Fexample.com%2F%3Fq%3D%22%3C%2Fscript%3E'', searchParams = []\<rparr>
     ''Mozilla/5.0 (Linux; Android 13) Instagram 300.0''
   = Inr \<lparr>status = 200,
          headers = [(''Content-Type'', ''text/html;charset=UTF-8''),
                     (''Cache-Control'', ''no-cache, no-store, must-revalidate'')],
          body = generateRedirectHTML ''https://example.com/?q="</script>'' ''android''\<rparr>\<close>
proof -
  have \<open>\<not> sublist ''/go/'' ''https%3A%2F%2Fexample.com%2F%3Fq%3D%22%3C%2Fscript%3E''\<close>
    by code_simp
  moreover have \<open>decodeURIComponent ''https%3A%2F%2Fexample.com%2F%3Fq%3D%22%3C%2Fscript%3E''
      = Inr ''https://example.com/?q="</script>''\<close>
    by code_simp
  ultimately have \<open>destination_of
      \<lparr>pathname = ''/go/https%3A%2F%2Fexample.com%2F%3Fq%3D%22%3C%2Fscript%3E'', searchParams = []\<rparr>
      = Inr (Some ''https://example.com/?q="</script>'')\<close>
    by (subst destination_of_path
        [where r = "''https%3A%2F%2Fexample.com%2F%3Fq%3D%22%3C%2Fscript%3E''"]) simp_all
  then show ?thesis
    by (subst handleRedirect_valid [where href = "''https://example.com/?q=%22%3C/script%3E''"])
      (simp_all add: new_URL_examples_def example_in_app example_platform)
qed

section \<open>Encoding a destination into the path and decoding it\<close>

lemma hexval_hexdigit: "k < 16 \<Longrightarrow> hexval (hexdigit k) = Some k"
proof -
  have "\<forall>k \<in> set [0..<16]. hexval (hexdigit k) = Some k"
    by code_simp
  then show "k < 16 \<Longrightarrow> hexval (hexdigit k) = Some k"
    by simp
qed

lemma escape_at_encoded:
  assumes "n < 256"
  shows "escape_at (CHR ''%'' # hexdigit (n div 16) # hexdigit (n mod 16) # rest) = Some (n, rest)"
proof -
  from assms have "n div 16 < 16" and "n mod 16 < 16" by simp_all
  then show ?thesis by (simp add: hexval_hexdigit)
qed

lemma hexdigit_not_slash: "k < 16 \<Longrightarrow> hexdigit k \<noteq> CHR ''/''"
proof -
  have "\<forall>k \<in> set [0..<16]. hexdigit k \<noteq> CHR ''/''"
    by code_simp
  then show "k < 16 \<Longrightarrow> hexdigit k \<noteq> CHR ''/''"
    by simp
qed

lemma unreserved_ascii: "unreserved c \<Longrightarrow> (of_char c :: nat) < 128"
  by (auto simp: unreserved_def Let_def)

lemma unreserved_not_percent: "unreserved c \<Longrightarrow> c \<noteq> CHR ''%''"
  by (auto simp: unreserved_def Let_def)

lemma unreserved_not_slash: "unreserved c \<Longrightarrow> c \<noteq> CHR ''/''"
  by (auto simp: unreserved_def Let_def)

lemma byte_digits: "n < 256 \<Longrightarrow> n div 16 < 16 \<and> n mod 16 < (16::nat)"
  by simp

lemma encode_char_no_slash: "CHR ''/'' \<notin> set (encode_char c)"
proof -
  have "(of_char c :: nat) div 16 < 16" and "(of_char c :: nat) mod 16 < 16"
    using byte_digits [OF nat_of_char_less_256 [of c]] by simp_all
  then have "hexdigit ((of_char c :: nat) div 16) \<noteq> CHR ''/''"
    and "hexdigit ((of_char c :: nat) mod 16) \<noteq> CHR ''/''"
    by (simp_all add: hexdigit_not_slash)
  then show ?thesis
    using unreserved_not_slash [of c] by (auto simp: encode_char_def)
qed

lemma encodeURIComponent_no_slash: "CHR ''/'' \<notin> set (encodeURIComponent s)"
  using encode_char_no_slash by (auto simp: encodeURIComponent_def)

lemma sublist_set: "sublist xs ys \<Longrightarrow> set xs \<subseteq> set ys"
  by (auto simp: sublist_def)

lemma encodeURIComponent_no_prefix: "\<not> sublist ''/go/'' (encodeURIComponent s)"
proof
  assume "sublist ''/go/'' (encodeURIComponent s)"
  from sublist_set [OF this] have "CHR ''/'' \<in> set (encodeURIComponent s)" by simp
  with encodeURIComponent_no_slash show False by simp
qed

lemma encode_char_nonempty: "encode_char c \<noteq> []"
  by (simp add: encode_char_def)

lemma encodeURIComponent_nonempty: "s \<noteq> [] \<Longrightarrow> encodeURIComponent s \<noteq> []"
  by (cases s) (simp_all add: encodeURIComponent_def encode_char_nonempty)

lemma encodeURIComponent_Cons:
  "encodeURIComponent (c # cs) = encode_char c @ encodeURIComponent cs"
  by (simp add: encodeURIComponent_def)

lemma encodeURIComponent_append:
  "encodeURIComponent (xs @ ys) = encodeURIComponent xs @ encodeURIComponent ys"
  by (simp add: encodeURIComponent_def)

lemma encode_char_escaped:
  "\<not> unreserved c \<Longrightarrow>
     encode_char c @ rest
       = CHR ''%'' # hexdigit ((of_char c :: nat) div 16) # hexdigit ((of_char c :: nat) mod 16) # rest"
  by (simp add: encode_char_def)

lemma escape_at_char:
  "escape_at (CHR ''%'' # hexdigit ((of_char c :: nat) div 16)
                # hexdigit ((of_char c :: nat) mod 16) # rest) = Some (of_char c, rest)"
  by (rule escape_at_encoded) simp

lemma encode_char_escape:
  assumes "\<not> unreserved c"
  shows "escape_at (encode_char c @ rest) = Some (of_char c, rest)"
  unfolding encode_char_escaped [OF assms] by (rule escape_at_char)

lemma read_escapes_encoded:
  assumes "\<forall>x \<in> set xs. 128 \<le> (of_char x :: nat)"
  shows "read_escapes (length xs) (encodeURIComponent xs @ rest) = Some (map of_char xs, rest)"
  using assms
proof (induction xs)
  case Nil
  then show ?case by (simp add: encodeURIComponent_def)
next
  case (Cons x xs)
  then have "\<not> unreserved x"
    using unreserved_ascii [of x] by auto
  with Cons show ?case
    by (simp add: encodeURIComponent_Cons encode_char_escape)
qed

lemma valid_utf8_cont: "valid_utf8 (a # bs) \<Longrightarrow> \<forall>b \<in> set bs. 128 \<le> b"
  by (induction "a # bs" rule: valid_utf8.induct) (auto simp: cont_def)

lemma valid_utf8_length: "valid_utf8 bs \<Longrightarrow> 2 \<le> length bs"
  by (induction bs rule: valid_utf8.induct) simp_all

lemma decode_encoded_unreserved:
  assumes "unreserved c"
  shows "decodeURIComponent (encode_char c @ rest) = map_sum id ((#) c) (decodeURIComponent rest)"
  using assms unreserved_not_percent [of c]
  by (simp add: encode_char_def decodeURIComponent.simps(2))

lemma decode_encoded_ascii:
  assumes "\<not> unreserved c" and "(of_char c :: nat) < 128"
  shows "decodeURIComponent (encode_char c @ rest) = map_sum id ((#) c) (decodeURIComponent rest)"
  unfolding encode_char_escaped [OF assms(1)]
  using assms(2)
  by (subst decodeURIComponent.simps(2)) (simp add: escape_at_char leading_ones_def del: escape_at.simps)

lemma decode_encoded_sequence:
  assumes "128 \<le> (of_char c :: nat)"
    and "valid_utf8 (of_char c # map of_char xs)"
    and "length xs = leading_ones (of_char c) - 1"
  shows "decodeURIComponent (encodeURIComponent (c # xs) @ rest)
           = map_sum id ((@) (c # xs)) (decodeURIComponent rest)"
proof -
  let ?B = "of_char c :: nat"
  let ?n = "leading_ones ?B"
  from assms(1) have nu: "\<not> unreserved c"
    using unreserved_ascii [of c] by auto
  from assms(2) have "2 \<le> length (?B # map of_char xs)"
    by (rule valid_utf8_length)
  with assms(3) have n: "2 \<le> ?n" by simp
  have n4: "?n \<le> 4"
  proof (rule ccontr)
    assume "\<not> ?n \<le> 4"
    then have "5 \<le> ?n" by simp
    with assms(3) have "4 \<le> length xs" by simp
    then obtain x1 x2 x3 x4 xs' where "xs = x1 # x2 # x3 # x4 # xs'"
      by (cases xs; cases "tl xs"; cases "tl (tl xs)"; cases "tl (tl (tl xs))") auto
    with assms(2) show False by simp
  qed
  have conts: "\<forall>x \<in> set xs. 128 \<le> (of_char x :: nat)"
    using valid_utf8_cont [OF assms(2)] by simp
  have e: "encodeURIComponent (c # xs) @ rest
      = CHR ''%'' # hexdigit (?B div 16) # hexdigit (?B mod 16) # (encodeURIComponent xs @ rest)"
    using encode_char_escaped [OF nu, of "encodeURIComponent xs @ rest"]
    by (simp add: encodeURIComponent_Cons)
  have rd: "read_escapes (?n - 1) (encodeURIComponent xs @ rest) = Some (map of_char xs, rest)"
    using read_escapes_encoded [OF conts, of rest] assms(3) by simp
  have chars: "map char_of (?B # map of_char xs) = c # xs"
    by (simp add: comp_def)
  show ?thesis
    unfolding e
    using n n4 rd assms(2) chars
    by (subst decodeURIComponent.simps(2))
      (simp add: escape_at_char Let_def del: escape_at.simps valid_utf8.simps)
qed

lemma decode_encode:
  "utf8_wf (map of_char d) \<Longrightarrow> decodeURIComponent (encodeURIComponent d) = Inr d"
proof (induction d rule: length_induct)
  case (1 d)
  show ?case
  proof (cases d)
    case Nil
    then show ?thesis by (simp add: encodeURIComponent_def decodeURIComponent.simps(1))
  next
    case (Cons c cs)
    let ?B = "of_char c :: nat"
    let ?n = "leading_ones ?B"
    show ?thesis
    proof (cases "?B < 128")
      case True
      then have "?n = 0" by (simp add: leading_ones_def)
      with "1.prems" Cons have "utf8_wf (map of_char cs)"
        by (simp add: utf8_wf.simps(2) Let_def)
      with "1.IH" Cons have "decodeURIComponent (encodeURIComponent cs) = Inr cs"
        by simp
      with True Cons show ?thesis
        by (cases "unreserved c")
          (simp_all add: encodeURIComponent_Cons decode_encoded_unreserved decode_encoded_ascii)
    next
      case False
      then have n0: "?n \<noteq> 0" by (simp add: leading_ones_def)
      let ?xs = "take (?n - 1) cs" and ?ys = "drop (?n - 1) cs"
      from "1.prems" Cons n0 have len: "?n - 1 \<le> length cs"
        and v: "valid_utf8 (?B # map of_char ?xs)"
        and wf: "utf8_wf (map of_char ?ys)"
        by (simp_all add: utf8_wf.simps(2) Let_def take_map drop_map split: if_splits)
      from wf "1.IH" Cons have ih: "decodeURIComponent (encodeURIComponent ?ys) = Inr ?ys"
        by simp
      have "encodeURIComponent d = encodeURIComponent (c # ?xs) @ encodeURIComponent ?ys"
        using Cons encodeURIComponent_append [of "c # ?xs" ?ys] by simp
      moreover have "length ?xs = ?n - 1"
        using len by simp
      ultimately show ?thesis
        using False v ih Cons decode_encoded_sequence [of c ?xs "encodeURIComponent ?ys"]
        by simp
    qed
  qed
qed

section \<open>The claims\<close>

text \<open>
  C1. For every identification string, \<^verbatim>\<open>isInAppBrowser\<close> is true if and only if the
  lower-cased string contains at least one of the markers \<open>instagram\<close>, \<open>fban\<close>, \<open>fbav\<close>,
  \<open>twitter\<close>, \<open>line/\<close>, \<open>micromessenger\<close>, \<open>kakao\<close>, \<open>telegram\<close>; on the empty string,
  which stands for an absent header, it is false.
\<close>

theorem isInAppBrowser_markers:
  "(isInAppBrowser ua \<longleftrightarrow>
      (\<exists>m \<in> set [''instagram'', ''fban'', ''fbav'', ''twitter'', ''line/'',
                    ''micromessenger'', ''kakao'', ''telegram''].
         sublist m (toLowerCase ua)))
   \<and> \<not> isInAppBrowser []"
proof
  show "isInAppBrowser ua \<longleftrightarrow>
      (\<exists>m \<in> set [''instagram'', ''fban'', ''fbav'', ''twitter'', ''line/'',
                    ''micromessenger'', ''kakao'', ''telegram''].
         sublist m (toLowerCase ua))"
    by (simp add: isInAppBrowser_def inAppBrowsers_def str_includes_sublist Let_def)
  show "\<not> isInAppBrowser []"
    by (simp add: isInAppBrowser_def inAppBrowsers_def)
qed

theorem isInAppBrowser_markers_witness:
  "isInAppBrowser ''Mozilla/5.0 (Linux; Android 13) Instagram 300.0''"
proof -
  have "sublist ''instagram'' (toLowerCase ''Mozilla/5.0 (Linux; Android 13) Instagram 300.0'')"
    by code_simp
  then show ?thesis
    using isInAppBrowser_markers [of "''Mozilla/5.0 (Linux; Android 13) Instagram 300.0''"]
    by simp
qed

text \<open>
  C2 at the destination \<^verbatim>\<open>https://example.com/?q="</script>\<close>: the double quote ends
  the \<open>href\<close> attribute of the manual link, so the link points to
  \<^verbatim>\<open>https://example.com/?q=\<close>; and the \<^verbatim>\<open></script>\<close> of the destination, which
  \<^verbatim>\<open>JSON.stringify\<close> copies, ends the script element inside the string literal.
\<close>

theorem destination_breaks_link_and_script:
  \<open>manual_link_href (manual_link ''https://example.com/?q="</script>'')
     = Some ''https://example.com/?q=''
   \<and> script_element (html_script ''https://example.com/?q="</script>'' platform)
     = Some (''\<newline>        const destinationUrl = "https://example.com/?q='' @ [CHR 0x5C, CHR 0x22])\<close>
  by (simp add: manual_link_href_def manual_link_def script_element_def html_script_def
      JSON_stringify_def json_quote_char_def)

text \<open>
  C3 at the request \<open>/go/%FF\<close>: the octet is not the start of a UTF-8 sequence,
  \<^verbatim>\<open>decodeURIComponent\<close> raises \<^verbatim>\<open>URIError\<close>, nothing catches it, and the worker
  returns no response for this request: neither of the two client errors, nor a success.
\<close>

theorem fetch_uncaught_URIError:
  "fetch new_URL ASSETS_fetch
     \<lparr>req_url = \<lparr>pathname = ''/go/%FF'', searchParams = []\<rparr>, req_method = ''GET'',
      req_headers = [], req_body = []\<rparr>
   = Inl URIError"
proof -
  have "\<not> sublist ''/go/'' ''%FF''" by code_simp
  moreover have "decodeURIComponent ''%FF'' = Inl URIError" by code_simp
  ultimately have "destination_of \<lparr>pathname = ''/go/%FF'', searchParams = []\<rparr> = Inl URIError"
    by (subst destination_of_path [where r = "''%FF''"]) simp_all
  then show ?thesis
    by (simp add: fetch_def Let_def startsWith_def handleRedirect_def)
qed

text \<open>
  C4. \<^verbatim>\<open>getPlatform\<close> is \<open>ios\<close> if the lower-cased string contains \<open>iphone\<close> or
  \<open>ipad\<close>, else \<open>android\<close> if it contains \<open>android\<close>, else \<open>unknown\<close>; a string with an
  iOS marker and the Android marker is \<open>ios\<close>.
\<close>

theorem getPlatform_order:
  "getPlatform ua =
     (if sublist ''iphone'' (toLowerCase ua) \<or> sublist ''ipad'' (toLowerCase ua) then ''ios''
      else if sublist ''android'' (toLowerCase ua) then ''android''
      else ''unknown'')
   \<and> ((sublist ''iphone'' (toLowerCase ua) \<or> sublist ''ipad'' (toLowerCase ua))
        \<and> sublist ''android'' (toLowerCase ua) \<longrightarrow> getPlatform ua = ''ios'')"
  by (simp add: getPlatform_def str_includes_sublist Let_def)

theorem getPlatform_order_witness:
  "getPlatform ''Mozilla/5.0 (iPhone; like Android) Instagram'' = ''ios''"
proof -
  have "sublist ''iphone'' (toLowerCase ''Mozilla/5.0 (iPhone; like Android) Instagram'')"
    and "sublist ''android'' (toLowerCase ''Mozilla/5.0 (iPhone; like Android) Instagram'')"
    by code_simp+
  then show ?thesis
    using getPlatform_order [of "''Mozilla/5.0 (iPhone; like Android) Instagram''"]
    by blast
qed

text \<open>
  C5. With the path \<open>/go/\<close> followed by a remainder that does not contain \<open>/go/\<close>: a
  non-empty remainder is percent-decoded and is the destination (a failing decoding
  raises), and only an empty remainder lets the query parameter \<open>url\<close> be read; the
  handler answers with the missing-destination error exactly when the remainder is empty
  and the parameter is absent or empty.
\<close>

theorem destination_from_path_then_query:
  assumes "pathname url = ''/go/'' @ r" and "\<not> sublist ''/go/'' r"
  shows "(r \<noteq> [] \<longrightarrow>
            destination_of url =
              (case decodeURIComponent r of Inl e \<Rightarrow> Inl e | Inr d \<Rightarrow> Inr (Some d)))
       \<and> (r = [] \<longrightarrow> destination_of url = Inr (searchParams_get (searchParams url) ''url''))
       \<and> (handleRedirect new_URL request url ua = Inr missing_destination \<longleftrightarrow>
            r = [] \<and> (searchParams_get (searchParams url) ''url'' = None
                      \<or> searchParams_get (searchParams url) ''url'' = Some []))"
proof (intro conjI impI)
  assume "r \<noteq> []"
  then show "destination_of url =
      (case decodeURIComponent r of Inl e \<Rightarrow> Inl e | Inr d \<Rightarrow> Inr (Some d))"
    using destination_of_path [OF assms] by simp
next
  assume "r = []"
  then show "destination_of url = Inr (searchParams_get (searchParams url) ''url'')"
    using destination_of_path [OF assms] by simp
next
  show "handleRedirect new_URL request url ua = Inr missing_destination \<longleftrightarrow>
      r = [] \<and> (searchParams_get (searchParams url) ''url'' = None
                \<or> searchParams_get (searchParams url) ''url'' = Some [])"
  proof (cases "r = []")
    case True
    then have "destination_of url = Inr (searchParams_get (searchParams url) ''url'')"
      using destination_of_path [OF assms] by simp
    from handleRedirect_missing_iff [OF this] True show ?thesis by simp
  next
    case False
    then have d: "destination_of url =
        (case decodeURIComponent r of Inl e \<Rightarrow> Inl e | Inr d \<Rightarrow> Inr (Some d))"
      using destination_of_path [OF assms] by simp
    show ?thesis
    proof (cases "decodeURIComponent r")
      case (Inl e)
      with d False show ?thesis by (simp add: handleRedirect_def)
    next
      case (Inr dest)
      with False have "dest \<noteq> []" by (auto dest: decodeURIComponent_nonempty)
      moreover from d Inr have "destination_of url = Inr (Some dest)" by simp
      ultimately show ?thesis
        using False handleRedirect_missing_iff [of url "Some dest"] by simp
    qed
  qed
qed

theorem destination_from_path_then_query_witness:
  "destination_of
     \<lparr>pathname = ''/go/https%3A%2F%2Fexample.com%2Fpath%3Fa%3D1'',
      searchParams = [(''url'', ''https://example.com'')]\<rparr>
   = Inr (Some ''https://example.com/path?a=1'')"
  using destination_from_path_then_query
    [of "\<lparr>pathname = ''/go/https%3A%2F%2Fexample.com%2Fpath%3Fa%3D1'',
          searchParams = [(''url'', ''https://example.com'')]\<rparr>"
        "''https%3A%2F%2Fexample.com%2Fpath%3Fa%3D1''"]
  by (simp add: example_path example_decode)

text \<open>
  C6, as the code has it. For a redirect request with a valid destination and an
  identification string that is not in-app, the response has status 302, no body, and
  one header, \<open>Location\<close>, whose value is the serialisation of the parsed destination
  (\<^verbatim>\<open>new URL(destination).href\<close>).
\<close>

theorem redirect_not_in_app:
  assumes "destination_of url = Inr (Some d)" and "d \<noteq> []" and "new_URL d = Some href"
    and "\<not> isInAppBrowser ua"
  shows "handleRedirect new_URL request url ua =
           Inr \<lparr>status = 302, headers = [(''Location'', href)], body = []\<rparr>"
  using assms by (simp add: handleRedirect_valid [of url d new_URL href])

theorem redirect_not_in_app_witness:
  "handleRedirect new_URL_examples
     \<lparr>req_url = \<lparr>pathname = ''/go/https%3A%2F%2Fexample.com%2Fpath%3Fa%3D1'', searchParams = []\<rparr>,
      req_method = ''GET'', req_headers = [(''user-agent'', ''curl/8.5.0'')], req_body = []\<rparr>
     \<lparr>pathname = ''/go/https%3A%2F%2Fexample.com%2Fpath%3Fa%3D1'', searchParams = []\<rparr>
     ''curl/8.5.0''
   = Inr \<lparr>status = 302, headers = [(''Location'', ''https://example.com/path?a=1'')], body = []\<rparr>"
  by (rule redirect_not_in_app [OF example_destination])
    (simp_all add: new_URL_examples_def example_not_in_app)

text \<open>
  The claim C6 as written, that the \<open>Location\<close> header equals the destination, fails
  for the destination \<open>https://example.com\<close>: the header is \<open>https://example.com/\<close>.
\<close>

theorem redirect_location_counterexample:
  "destination_of \<lparr>pathname = ''/go/'', searchParams = [(''url'', ''https://example.com'')]\<rparr>
     = Inr (Some ''https://example.com'')
   \<and> handleRedirect new_URL_examples
         \<lparr>req_url = \<lparr>pathname = ''/go/'', searchParams = [(''url'', ''https://example.com'')]\<rparr>,
          req_method = ''GET'', req_headers = [(''user-agent'', ''curl/8.5.0'')], req_body = []\<rparr>
         \<lparr>pathname = ''/go/'', searchParams = [(''url'', ''https://example.com'')]\<rparr>
         ''curl/8.5.0''
       = Inr \<lparr>status = 302, headers = [(''Location'', ''https://example.com/'')], body = []\<rparr>
   \<and> handleRedirect new_URL_examples
         \<lparr>req_url = \<lparr>pathname = ''/go/'', searchParams = [(''url'', ''https://example.com'')]\<rparr>,
          req_method = ''GET'', req_headers = [(''user-agent'', ''curl/8.5.0'')], req_body = []\<rparr>
         \<lparr>pathname = ''/go/'', searchParams = [(''url'', ''https://example.com'')]\<rparr>
         ''curl/8.5.0''
       \<noteq> Inr \<lparr>status = 302, headers = [(''Location'', ''https://example.com'')], body = []\<rparr>"
proof -
  have d: "destination_of \<lparr>pathname = ''/go/'', searchParams = [(''url'', ''https://example.com'')]\<rparr>
      = Inr (Some ''https://example.com'')"
    by (subst destination_of_path [where r = "[]"]) (simp_all add: searchParams_get_def)
  have "handleRedirect new_URL_examples
         \<lparr>req_url = \<lparr>pathname = ''/go/'', searchParams = [(''url'', ''https://example.com'')]\<rparr>,
          req_method = ''GET'', req_headers = [(''user-agent'', ''curl/8.5.0'')], req_body = []\<rparr>
         \<lparr>pathname = ''/go/'', searchParams = [(''url'', ''https://example.com'')]\<rparr>
         ''curl/8.5.0''
       = Inr \<lparr>status = 302, headers = [(''Location'', ''https://example.com/'')], body = []\<rparr>"
    by (subst handleRedirect_valid [OF d, where href = "''https://example.com/''"])
      (simp_all add: new_URL_examples_def example_not_in_app)
  with d show ?thesis by simp
qed

text \<open>
  C7. A non-empty destination, written into the path after \<open>/go/\<close> with
  \<^verbatim>\<open>encodeURIComponent\<close>, is read back by the handler exactly: whatever characters
  it contains, \<open>?\<close>, \<open>&\<close>, \<open>#\<close> and quotes among them.
\<close>

theorem path_round_trip:
  assumes "well_formed d" and "d \<noteq> []"
    and "pathname url = ''/go/'' @ encodeURIComponent d"
  shows "destination_of url = Inr (Some d)"
proof -
  have "destination_of url =
      (case decodeURIComponent (encodeURIComponent d) of
         Inl e \<Rightarrow> Inl e
       | Inr dest \<Rightarrow> Inr (Some dest))"
    using destination_of_path [OF assms(3) encodeURIComponent_no_prefix]
      encodeURIComponent_nonempty [OF assms(2)]
    by simp
  also have "decodeURIComponent (encodeURIComponent d) = Inr d"
    using assms(1) by (simp add: well_formed_def decode_encode)
  finally show ?thesis by simp
qed

theorem path_round_trip_witness:
  \<open>destination_of
     \<lparr>pathname = ''/go/https%3A%2F%2Fexample.com%2Fp%C3%A9%3Fa%3D1%26b%3D%22x%22%23f'',
      searchParams = []\<rparr>
   = Inr (Some (''https://example.com/p'' @ [CHR 0xC3, CHR 0xA9] @ ''?a=1&b="x"#f''))\<close>
proof (rule path_round_trip)
  show \<open>well_formed (''https://example.com/p'' @ [CHR 0xC3, CHR 0xA9] @ ''?a=1&b="x"#f'')\<close>
    by code_simp
  show \<open>pathname
      \<lparr>pathname = ''/go/https%3A%2F%2Fexample.com%2Fp%C3%A9%3Fa%3D1%26b%3D%22x%22%23f'',
       searchParams = []\<rparr>
    = ''/go/'' @ encodeURIComponent (''https://example.com/p'' @ [CHR 0xC3, CHR 0xA9] @ ''?a=1&b="x"#f'')\<close>
    by code_simp
qed simp

text \<open>
  C8, as the code has it. For a destination that begins with \<open>http://\<close> or
  \<open>https://\<close>, on the platform \<open>android\<close>, the script navigates to \<open>intent://\<close>
  followed by the destination with that scheme prefix stripped, followed by
  \<open>#Intent;end\<close>, and sets a timer of 500 ms that navigates to the unchanged
  destination.
\<close>

theorem android_intent_url:
  assumes "d = ''http://'' @ rest \<or> d = ''https://'' @ rest"
  shows "attemptRedirect d ''android'' nav =
           [Navigate (''intent://'' @ rest @ ''#Intent;end''),
            SetTimeout [Navigate d] 500]
         \<and> scheme_prefix_stripped d = rest"
  using assms
  by (auto simp: attemptRedirect_def scheme_prefix_stripped_def)

theorem android_intent_url_witness:
  "attemptRedirect ''https://example.com/path?a=1'' ''android'' []
     = [Navigate ''intent://example.com/path?a=1#Intent;end'',
        SetTimeout [Navigate ''https://example.com/path?a=1''] 500]
   \<and> scheme_prefix_stripped ''https://example.com/path?a=1'' = ''example.com/path?a=1''"
  using android_intent_url
    [of "''https://example.com/path?a=1''" "''example.com/path?a=1''" "[]"]
  by simp

text \<open>
  The claim C8 as written, for every valid destination, fails for the destination
  \<open>ftp://example.com/\<close>: its scheme prefix stays in the intent URL.
\<close>

theorem android_intent_url_counterexample:
  "new_URL_examples ''ftp://example.com/'' \<noteq> None
   \<and> attemptRedirect ''ftp://example.com/'' ''android'' []
       = [Navigate ''intent://ftp://example.com/#Intent;end'',
          SetTimeout [Navigate ''ftp://example.com/''] 500]
   \<and> attemptRedirect ''ftp://example.com/'' ''android'' []
       \<noteq> [Navigate (''intent://'' @ scheme_prefix_stripped ''ftp://example.com/'' @ ''#Intent;end''),
          SetTimeout [Navigate ''ftp://example.com/''] 500]"
  by (simp add: new_URL_examples_def attemptRedirect_def scheme_prefix_stripped_def)

text \<open>
  C9. For a redirect request with a valid destination and an in-app identification
  string, the response has status 200, the headers \<open>Content-Type: text/html;charset=UTF-8\<close>
  and \<open>Cache-Control: no-cache, no-store, must-revalidate\<close>, and its body is the
  interstitial document for the destination and the platform.
\<close>

theorem interstitial_in_app:
  assumes "destination_of url = Inr (Some d)" and "d \<noteq> []" and "new_URL d \<noteq> None"
    and "isInAppBrowser ua"
  shows "handleRedirect new_URL request url ua =
           Inr \<lparr>status = 200,
                headers = [(''Content-Type'', ''text/html;charset=UTF-8''),
                           (''Cache-Control'', ''no-cache, no-store, must-revalidate'')],
                body = generateRedirectHTML d (getPlatform ua)\<rparr>"
proof -
  from assms(3) obtain href where "new_URL d = Some href" by auto
  with assms show ?thesis by (simp add: handleRedirect_valid [of url d new_URL href])
qed

theorem interstitial_in_app_witness:
  "handleRedirect new_URL_examples
     \<lparr>req_url = \<lparr>pathname = ''/go/https%3A%2F%2Fexample.com%2Fpath%3Fa%3D1'', searchParams = []\<rparr>,
      req_method = ''GET'',
      req_headers = [(''user-agent'', ''Mozilla/5.0 (Linux; Android 13) Instagram 300.0'')],
      req_body = []\<rparr>
     \<lparr>pathname = ''/go/https%3A%2F%2Fexample.com%2Fpath%3Fa%3D1'', searchParams = []\<rparr>
     ''Mozilla/5.0 (Linux; Android 13) Instagram 300.0''
   = Inr \<lparr>status = 200,
          headers = [(''Content-Type'', ''text/html;charset=UTF-8''),
                     (''Cache-Control'', ''no-cache, no-store, must-revalidate'')],
          body = generateRedirectHTML ''https://example.com/path?a=1'' ''android''\<rparr>"
  using interstitial_in_app [OF example_destination, of new_URL_examples
      "''Mozilla/5.0 (Linux; Android 13) Instagram 300.0''"]
  by (simp add: new_URL_examples_def example_in_app example_platform)

text \<open>
  C10. Two requests to a path that begins with \<open>/go/\<close>, with the same URL and the same
  value of the \<open>user-agent\<close> header, get the same result: the method, the other headers
  and the body are not read.
\<close>

theorem fetch_reads_url_and_user_agent_only:
  assumes "req_url r1 = req_url r2"
    and "headers_get (req_headers r1) ''user-agent'' = headers_get (req_headers r2) ''user-agent''"
    and "startsWith (pathname (req_url r1)) ''/go/''"
  shows "fetch new_URL ASSETS_fetch r1 = fetch new_URL ASSETS_fetch r2"
  using assms handleRedirect_request [of new_URL r1 _ _ r2]
  by (simp add: fetch_def Let_def)

theorem fetch_reads_url_and_user_agent_only_witness:
  "fetch new_URL_examples (\<lambda>r. Inl TypeError)
     \<lparr>req_url = \<lparr>pathname = ''/go/https%3A%2F%2Fexample.com%2Fpath%3Fa%3D1'', searchParams = []\<rparr>,
      req_method = ''GET'', req_headers = [(''user-agent'', ''curl/8.5.0'')], req_body = []\<rparr>
   = fetch new_URL_examples (\<lambda>r. Inl TypeError)
     \<lparr>req_url = \<lparr>pathname = ''/go/https%3A%2F%2Fexample.com%2Fpath%3Fa%3D1'', searchParams = []\<rparr>,
      req_method = ''POST'',
      req_headers = [(''Accept'', ''*/*''), (''User-Agent'', ''curl/8.5.0''), (''Cookie'', ''a=b'')],
      req_body = ''x=1''\<rparr>"
proof (rule fetch_reads_url_and_user_agent_only)
  show "headers_get (req_headers
           \<lparr>req_url = \<lparr>pathname = ''/go/https%3A%2F%2Fexample.com%2Fpath%3Fa%3D1'', searchParams = []\<rparr>,
            req_method = ''GET'', req_headers = [(''user-agent'', ''curl/8.5.0'')], req_body = []\<rparr>)
          ''user-agent''
      = headers_get (req_headers
           \<lparr>req_url = \<lparr>pathname = ''/go/https%3A%2F%2Fexample.com%2Fpath%3Fa%3D1'', searchParams = []\<rparr>,
            req_method = ''POST'',
            req_headers = [(''Accept'', ''*/*''), (''User-Agent'', ''curl/8.5.0''), (''Cookie'', ''a=b'')],
            req_body = ''x=1''\<rparr>)
          ''user-agent''"
    by code_simp
qed (simp_all add: startsWith_def)

end
